theory Spec2Isabelle
  imports Main "HOL-Library.Word" "HOL-Library.Sublist"
begin

unbundle bit_operations_syntax

section \<open>Byte buffers\<close>

text \<open>
  A \<open>Uint8Array\<close> is a list of bytes. \<open>slice\<close> and \<open>subarray\<close> clamp their bounds
  to the length of the array, as \<open>take\<close> and \<open>drop\<close> do.
\<close>

type_synonym byte = "8 word"
type_synonym bytes = "byte list"

definition slice :: "bytes \<Rightarrow> nat \<Rightarrow> nat \<Rightarrow> bytes" where
  "slice m b e = drop b (take e m)"

definition subarray :: "bytes \<Rightarrow> nat \<Rightarrow> nat \<Rightarrow> bytes" where
  "subarray m b e = drop b (take e m)"

definition subarray_from :: "bytes \<Rightarrow> nat \<Rightarrow> bytes" where
  "subarray_from m b = drop b m"

definition concatBytes :: "bytes list \<Rightarrow> bytes" where
  "concatBytes arrays = concat arrays"

text \<open>\<open>new Uint8Array(n)\<close>: \<open>n\<close> zero bytes.\<close>

definition new_Uint8Array :: "nat \<Rightarrow> bytes" where
  "new_Uint8Array n = replicate n 0"

text \<open>
  \<open>target.set(source, offset)\<close> copies \<open>source\<close> into \<open>target\<close> from \<open>offset\<close> on.
  It raises a RangeError when the source does not fit, which is the value \<open>None\<close>.
\<close>

definition u8_set :: "bytes \<Rightarrow> bytes \<Rightarrow> nat \<Rightarrow> bytes option" where
  "u8_set target source offset =
     (if offset + length source \<le> length target
      then Some (take offset target @ source @ drop (offset + length source) target)
      else None)"

section \<open>Strings and their UTF-8 encoding\<close>

text \<open>
  A JavaScript string is taken as its sequence of code points. \<open>TextEncoder.encode\<close>
  writes each code point in UTF-8; a lone surrogate is written as U+FFFD.
\<close>

type_synonym js_string = "nat list"

definition js_literal :: "string \<Rightarrow> js_string" where
  "js_literal s = map of_char s"

definition utf8_code_point :: "nat \<Rightarrow> bytes" where
  "utf8_code_point c =
     (if c < 0x80 then [of_nat c]
      else if c < 0x800 then [of_nat (0xC0 + c div 64), of_nat (0x80 + c mod 64)]
      else if (0xD800 \<le> c \<and> c < 0xE000) \<or> 0x110000 \<le> c then [0xEF, 0xBF, 0xBD]
      else if c < 0x10000 then
        [of_nat (0xE0 + c div 4096), of_nat (0x80 + (c div 64) mod 64), of_nat (0x80 + c mod 64)]
      else
        [of_nat (0xF0 + c div 262144), of_nat (0x80 + (c div 4096) mod 64),
         of_nat (0x80 + (c div 64) mod 64), of_nat (0x80 + c mod 64)])"

definition TextEncoder_encode :: "js_string \<Rightarrow> bytes" where
  "TextEncoder_encode s = concat (map utf8_code_point s)"

section \<open>KeyDerivation: \<open>slip21Derive\<close>\<close>

text \<open>
  \<open>hmac(sha512, key, message)\<close> belongs to the hashing library; it is the parameter
  \<open>hmac\<close> (key first, then message). A key given as a string is encoded in UTF-8 by
  the library before use.
\<close>

type_synonym hmac_fn = "bytes \<Rightarrow> bytes \<Rightarrow> bytes"

text \<open>
  The body of the loop builds \<open>e\<close>: a buffer one byte longer than the encoded segment,
  its first byte set to zero, the segment copied in from offset 1.
\<close>

definition segment_buffer :: "js_string \<Rightarrow> bytes option" where
  "segment_buffer seg =
     (let p = TextEncoder_encode seg;
          e = new_Uint8Array (length p + 1);
          e = e[0 := 0]
      in u8_set e p 1)"

text \<open>
  \<open>for (let i = 0; i < path.length; i++) { ... m = hmac(sha512, m.slice(0, 32), e) }\<close>.
  A RangeError in the body would abort the derivation.
\<close>

function slip21_loop :: "hmac_fn \<Rightarrow> js_string list \<Rightarrow> nat \<Rightarrow> bytes \<Rightarrow> bytes option" where
  "slip21_loop hmac path i m =
     (if i < length path then
        (case segment_buffer (path ! i) of
           None \<Rightarrow> None
         | Some e \<Rightarrow> slip21_loop hmac path (i + 1) (hmac (slice m 0 32) e))
      else Some m)"
  by pat_completeness auto
termination
  by (relation "measure (\<lambda>(hmac, path, i, m). length path - i)") auto

declare slip21_loop.simps [simp del]

definition slip21Derive :: "hmac_fn \<Rightarrow> bytes \<Rightarrow> js_string list \<Rightarrow> bytes option" where
  "slip21Derive hmac seed path =
     (let m = hmac (TextEncoder_encode (js_literal ''Symmetric key seed'')) seed
      in case slip21_loop hmac path 0 m of
           None \<Rightarrow> None
         | Some m' \<Rightarrow> Some (slice m' 32 64))"

text \<open>
  The reference SLIP-21 algorithm, in the words of the specification: the state starts
  as the HMAC of the seed under the ASCII string, each segment in order replaces it by the
  HMAC, under its first 32 bytes, of a zero byte followed by the segment's UTF-8 bytes,
  and the key is bytes 32 to 64 of the final state.
\<close>

definition ascii :: "string \<Rightarrow> bytes" where
  "ascii s = map (\<lambda>c. of_nat (of_char c)) s"

definition slip21_step :: "hmac_fn \<Rightarrow> bytes \<Rightarrow> js_string \<Rightarrow> bytes" where
  "slip21_step hmac state p = hmac (take 32 state) (0 # TextEncoder_encode p)"

definition slip21_reference :: "hmac_fn \<Rightarrow> bytes \<Rightarrow> js_string list \<Rightarrow> bytes" where
  "slip21_reference hmac seed path =
     drop 32 (take 64 (foldl (slip21_step hmac) (hmac (ascii ''Symmetric key seed'') seed) path))"


text \<open>
  A stand-in for the hashing library with 64-byte values, as HMAC-SHA512 has: it is
  only used to show that the assumption on the length can be met.
\<close>

definition sample_hmac :: hmac_fn where
  "sample_hmac k m = take 64 (k @ m @ replicate 64 0)"

section \<open>Effects and their exits\<close>

text \<open>
  An effect of type \<open>Effect<R, E, A>\<close> ends in an exit: a success with a value, or a
  failure with a cause. A cause is a typed failure of the error channel \<open>E\<close>, a defect
  (a thrown value that the type does not declare) or an interruption.
  \<open>Effect.sync(thunk)\<close> runs the thunk; what the thunk throws becomes a defect.
\<close>

datatype js_error = Error string

datatype 'e cause = Fail 'e | Die js_error | Interrupt

datatype ('e, 'a) exit = Success 'a | Failure "'e cause"

definition Effect_sync :: "js_error + 'a \<Rightarrow> ('e, 'a) exit" where
  "Effect_sync thunk = (case thunk of Inl x \<Rightarrow> Failure (Die x) | Inr a \<Rightarrow> Success a)"

definition Effect_flatMap :: "('e, 'a) exit \<Rightarrow> ('a \<Rightarrow> ('e, 'b) exit) \<Rightarrow> ('e, 'b) exit" where
  "Effect_flatMap x f = (case x of Success a \<Rightarrow> f a | Failure c \<Rightarrow> Failure c)"

text \<open>\<open>Cause.failureOrCause\<close>: the typed failure on the left, any other cause on the right.\<close>

definition failureOrCause :: "'e cause \<Rightarrow> 'e + 'e cause" where
  "failureOrCause c = (case c of Fail e \<Rightarrow> Inl e | _ \<Rightarrow> Inr c)"

section \<open>The random source\<close>

text \<open>
  The system random source is a tape of bytes read from a cursor onwards:
  \<open>randomBytes(n)\<close> returns the next \<open>n\<close> bytes and moves the cursor.
\<close>

record random_source =
  cursor :: nat
  tape :: "nat \<Rightarrow> byte"

definition randomBytes :: "nat \<Rightarrow> random_source \<Rightarrow> bytes \<times> random_source" where
  "randomBytes n r = (map (tape r) [cursor r ..< cursor r + n], r\<lparr>cursor := cursor r + n\<rparr>)"

section \<open>SecretBox\<close>

text \<open>
  \<open>secretbox(key, nonce).seal(data)\<close> and \<open>secretbox(key, nonce).open(data)\<close> belong to
  the cipher library. They are the two fields of the parameter \<open>lib\<close>, each taking the
  key, the nonce and the data; a throw of the library at either stage is the value
  \<open>Inl\<close>.
\<close>

record secretbox_lib =
  sb_seal :: "bytes \<Rightarrow> bytes \<Rightarrow> bytes \<Rightarrow> js_error + bytes"
  sb_open :: "bytes \<Rightarrow> bytes \<Rightarrow> bytes \<Rightarrow> js_error + bytes"

definition SecretBox_seal ::
  "secretbox_lib \<Rightarrow> bytes \<Rightarrow> bytes \<Rightarrow> random_source \<Rightarrow> ('e, bytes) exit \<times> random_source" where
  "SecretBox_seal lib key plaintext r =
     (case randomBytes 24 r of (nonce, r') \<Rightarrow>
        (Effect_sync
           (case sb_seal lib key nonce plaintext of
              Inl x \<Rightarrow> Inl x
            | Inr ciphertext \<Rightarrow> Inr (concatBytes [nonce, ciphertext])),
         r'))"

definition SecretBox_open :: "secretbox_lib \<Rightarrow> bytes \<Rightarrow> bytes \<Rightarrow> ('e, bytes) exit" where
  "SecretBox_open lib key ciphertext =
     Effect_sync
       (let nonce = subarray ciphertext 0 24;
            ciphertextWithoutNonce = subarray_from ciphertext 24
        in sb_open lib key nonce ciphertextWithoutNonce)"

text \<open>
  What the cipher library promises for a 32-byte key and a 24-byte nonce: sealing
  succeeds and opening the sealed box under the same key and nonce gives the plaintext back.
\<close>

definition secretbox_roundtrip :: "secretbox_lib \<Rightarrow> bool" where
  "secretbox_roundtrip lib =
     (\<forall>k n m. length k = 32 \<and> length n = 24 \<longrightarrow>
        (\<exists>c. sb_seal lib k n m = Inr c \<and> sb_open lib k n c = Inr m))"



text \<open>Flipping bit \<open>i\<close> of a buffer (bit \<open>i mod 8\<close> of byte \<open>i div 8\<close>).\<close>

definition flip_bit_at :: "nat \<Rightarrow> bytes \<Rightarrow> bytes" where
  "flip_bit_at i m = m[i div 8 := (m ! (i div 8)) XOR push_bit (i mod 8) 1]"


text \<open>
  A small instance of the library's interface, used to show that the assumptions on the
  library can be met: the box is a 16-byte checksum of key, nonce and masked text,
  followed by the text masked with the bytes of key and nonce.
\<close>

definition sample_mask :: "bytes \<Rightarrow> bytes \<Rightarrow> nat \<Rightarrow> bytes" where
  "sample_mask k n len = map (\<lambda>i. (k @ n) ! (i mod 56)) [0 ..< len]"

definition sample_tag :: "bytes \<Rightarrow> bytes \<Rightarrow> bytes \<Rightarrow> bytes" where
  "sample_tag k n c = replicate 16 (sum_list (k @ n @ c))"

definition sample_seal :: "bytes \<Rightarrow> bytes \<Rightarrow> bytes \<Rightarrow> js_error + bytes" where
  "sample_seal k n m =
     (if length k \<noteq> 32 \<or> length n \<noteq> 24 then Inl (Error ''invalid length'')
      else let c = map2 (XOR) m (sample_mask k n (length m)) in Inr (sample_tag k n c @ c))"

definition sample_open :: "bytes \<Rightarrow> bytes \<Rightarrow> bytes \<Rightarrow> js_error + bytes" where
  "sample_open k n box =
     (if length k \<noteq> 32 \<or> length n \<noteq> 24 then Inl (Error ''invalid length'')
      else if length box < 16 then Inl (Error ''too short'')
      else let c = drop 16 box in
        if take 16 box \<noteq> sample_tag k n c then Inl (Error ''invalid tag'')
        else Inr (map2 (XOR) c (sample_mask k n (length c))))"

definition sample_lib :: secretbox_lib where
  "sample_lib = \<lparr>sb_seal = sample_seal, sb_open = sample_open\<rparr>"

definition counting_source :: random_source where
  "counting_source = \<lparr>cursor = 0, tape = (\<lambda>i. of_nat i)\<rparr>"

text \<open>The box that \<open>sample_lib\<close> seals for the text 10, 20, 30 under the key of 32 ones.\<close>

definition sealed_sample :: bytes where
  "sealed_sample =
     [0, 1, 2, 3, 4, 5, 6, 7, 8, 9, 10, 11, 12, 13, 14, 15, 16, 17, 18, 19, 20, 21, 22, 23]
     @ replicate 16 115 @ [11, 21, 31]"

section \<open>IdentityIds: \<open>nanoidAsNodeId\<close>\<close>

text \<open>
  \<open>customAlphabet(alphabet, size)\<close> belongs to the identifier library: it gives a
  generator of strings. It is the parameter \<open>customAlphabet\<close>; the generator reads the
  random source.
\<close>

type_synonym custom_alphabet = "string \<Rightarrow> nat \<Rightarrow> random_source \<Rightarrow> string \<times> random_source"

definition nanoidForNodeId :: "custom_alphabet \<Rightarrow> random_source \<Rightarrow> string \<times> random_source" where
  "nanoidForNodeId customAlphabet = customAlphabet ''0123456789abcdef'' 16"

text \<open>\<open>nanoidForNodeId() as NodeId\<close>: the cast checks nothing.\<close>

definition nanoidAsNodeId :: "custom_alphabet \<Rightarrow> random_source \<Rightarrow> string \<times> random_source" where
  "nanoidAsNodeId customAlphabet r = nanoidForNodeId customAlphabet r"

text \<open>
  What the identifier library promises: for an alphabet that is not empty, a string of
  the given size whose characters all come from the alphabet.
\<close>

definition customAlphabet_contract :: "custom_alphabet \<Rightarrow> bool" where
  "customAlphabet_contract ca =
     (\<forall>a n r. a \<noteq> [] \<longrightarrow> length (fst (ca a n r)) = n \<and> set (fst (ca a n r)) \<subseteq> set a)"

text \<open>
  Modelled from the spec: the generator of the identifier library is not part of the
  sources; the specification says that it draws \<open>size\<close> characters from the alphabet,
  one for each random draw.
\<close>

definition draw_customAlphabet :: custom_alphabet where
  "draw_customAlphabet a n r =
     (case randomBytes n r of (bs, r') \<Rightarrow> (map (\<lambda>b. a ! (unat b mod length a)) bs, r'))"

text \<open>
  The patterns. \<open>\w\<close> is a letter, a digit or the underscore; \<open>^[\w-]{16}$\<close> is the
  pattern of the \<open>NodeId\<close> schema and \<open>^[0-9a-f]{16}$\<close> the narrower one.
\<close>

definition is_digit :: "char \<Rightarrow> bool" where
  "is_digit c = (48 \<le> (of_char c :: nat) \<and> (of_char c :: nat) \<le> 57)"

definition is_word_char :: "char \<Rightarrow> bool" where
  "is_word_char c =
     ((65 \<le> (of_char c :: nat) \<and> (of_char c :: nat) \<le> 90) \<or>
      (97 \<le> (of_char c :: nat) \<and> (of_char c :: nat) \<le> 122) \<or>
      is_digit c \<or> c = CHR ''_'')"

definition is_hex_char :: "char \<Rightarrow> bool" where
  "is_hex_char c = (is_digit c \<or> (97 \<le> (of_char c :: nat) \<and> (of_char c :: nat) \<le> 102))"

definition NodeId_pattern :: "string \<Rightarrow> bool" where
  "NodeId_pattern s = (length s = 16 \<and> list_all (\<lambda>c. is_word_char c \<or> c = CHR ''-'') s)"

definition hex16_pattern :: "string \<Rightarrow> bool" where
  "hex16_pattern s = (length s = 16 \<and> list_all is_hex_char s)"

section \<open>SyncRelay\<close>

subsection \<open>Sockets, responses and the state of the relay\<close>

datatype wire_data = Binary bytes | Text string

datatype ready_state = CONNECTING | OPEN | CLOSING | CLOSED

text \<open>
  A WebSocket object: its ready state and the frames it has transmitted to its peer.
  \<open>send\<close> belongs to the WebSocket library: it throws while the socket is connecting,
  transmits the frame when the socket is open, and otherwise reports the failure to the
  optional callback only, which the relay never passes.
\<close>

record socket =
  readyState :: ready_state
  received :: "wire_data list"

definition ws_send :: "socket \<Rightarrow> wire_data \<Rightarrow> js_error + socket" where
  "ws_send s frame =
     (case readyState s of
        CONNECTING \<Rightarrow> Inl (Error ''WebSocket is not open: readyState 0 (CONNECTING)'')
      | OPEN \<Rightarrow> Inr (s\<lparr>received := received s @ [frame]\<rparr>)
      | _ \<Rightarrow> Inr s)"

text \<open>
  The response object of one HTTP request. A fresh one has status 200, no header set by
  the handler and no body.
\<close>

record response =
  statusCode :: nat
  headers :: "string \<rightharpoonup> string"
  body :: "wire_data option"

definition fresh_response :: response where
  "fresh_response = \<lparr>statusCode = 200, headers = Map.empty, body = None\<rparr>"

definition res_status :: "nat \<Rightarrow> response \<Rightarrow> response" where
  "res_status code res = res\<lparr>statusCode := code\<rparr>"

definition res_setHeader :: "string \<Rightarrow> string \<Rightarrow> response \<Rightarrow> response" where
  "res_setHeader name v res = res\<lparr>headers := (headers res)(name \<mapsto> v)\<rparr>"

definition res_send :: "wire_data \<Rightarrow> response \<Rightarrow> response" where
  "res_send d res = res\<lparr>body := Some d\<rparr>"

text \<open>
  The external sync operation fails, in its typed error channel, with a
  \<open>BadRequestError\<close> only, which carries a structured error value.
\<close>

datatype json =
  JNull | JBool bool | JNumber int | JString string
  | JArray "json list" | JObject "(string \<times> json) list"

datatype sync_error = BadRequestError json

text \<open>What a \<open>catch\<close> receives: the rejection of \<open>Effect.runPromise\<close> or a thrown error.\<close>

datatype thrown = FiberFailure "sync_error cause" | Thrown js_error

datatype log_value =
  LogString string | LogCause "sync_error cause" | LogThrown thrown | LogBytes bytes

text \<open>
  The collaborators of the relay: \<open>server.sync\<close>, which reads and writes the database,
  and \<open>JSON.stringify\<close>.
\<close>

record 'db env =
  sync :: "bytes \<Rightarrow> 'db \<Rightarrow> (sync_error, bytes) exit \<times> 'db"
  JSON_stringify :: "json \<Rightarrow> string"

text \<open>
  The state of the process: the module-level array \<open>clients\<close> of references to
  WebSocket objects, the objects themselves, the lines written by \<open>console.error\<close>
  and the database behind \<open>server.sync\<close>.
\<close>

type_synonym ws_ref = nat

record 'db relay =
  clients :: "ws_ref list"
  sockets :: "ws_ref \<Rightarrow> socket"
  console :: "log_value list list"
  db :: 'db

definition console_error :: "log_value list \<Rightarrow> 'db relay \<Rightarrow> 'db relay" where
  "console_error args st = st\<lparr>console := console st @ [args]\<rparr>"

subsection \<open>\<open>broadcast\<close>\<close>

text \<open>
  \<open>clients.map((client) => { if (client.readyState === WebSocket.OPEN) client.send(data) })\<close>:
  the clients are visited in order; a throw of \<open>send\<close> ends the visit, the frames sent
  before it stay sent.
\<close>

fun broadcast_clients ::
  "ws_ref list \<Rightarrow> bytes \<Rightarrow> (ws_ref \<Rightarrow> socket) \<Rightarrow> js_error option \<times> (ws_ref \<Rightarrow> socket)" where
  "broadcast_clients [] data h = (None, h)"
| "broadcast_clients (client # rest) data h =
     (if readyState (h client) = OPEN then
        (case ws_send (h client) (Binary data) of
           Inl x \<Rightarrow> (Some x, h)
         | Inr s \<Rightarrow> broadcast_clients rest data (h(client := s)))
      else broadcast_clients rest data h)"

definition broadcast :: "bytes \<Rightarrow> 'db relay \<Rightarrow> js_error option \<times> 'db relay" where
  "broadcast data st =
     (case broadcast_clients (clients st) data (sockets st) of
        (x, h) \<Rightarrow> (x, st\<lparr>sockets := h\<rparr>))"

subsection \<open>The HTTP handler \<open>app.post("/")\<close>\<close>

definition onFailure :: "'db env \<Rightarrow> sync_error cause \<Rightarrow> 'db relay \<Rightarrow> response \<times> 'db relay" where
  "onFailure env c st =
     (case failureOrCause c of
        Inl (BadRequestError error) \<Rightarrow>
          (res_send (Text (JSON_stringify env error)) (res_status 400 fresh_response), st)
      | Inr error \<Rightarrow>
          (res_send (Text ''Internal Server Error'') (res_status 500 fresh_response),
           console_error [LogCause error] st))"

definition onSuccess :: "bytes \<Rightarrow> 'db relay \<Rightarrow> response \<times> 'db relay" where
  "onSuccess buffer st =
     (let res = res_send (Binary buffer)
                  (res_setHeader ''Content-Type'' ''application/x-protobuf'' fresh_response)
      in case broadcast buffer st of
           (None, st') \<Rightarrow> (res, st')
         | (Some err, st') \<Rightarrow>
             (res, console_error [LogString ''broadcast error'', LogThrown (Thrown err),
                                  LogBytes buffer] st'))"

definition app_post :: "'db env \<Rightarrow> bytes \<Rightarrow> 'db relay \<Rightarrow> response \<times> 'db relay" where
  "app_post env req_body st =
     (case sync env req_body (db st) of
        (ex, db') \<Rightarrow>
          (case ex of
             Failure c \<Rightarrow> onFailure env c (st\<lparr>db := db'\<rparr>)
           | Success buffer \<Rightarrow> onSuccess buffer (st\<lparr>db := db'\<rparr>)))"

subsection \<open>The WebSocket handlers\<close>

text \<open>\<open>wss.on("connection", (ws) => { clients.push(ws); ... })\<close>\<close>

definition on_connection :: "ws_ref \<Rightarrow> 'db relay \<Rightarrow> 'db relay" where
  "on_connection ws st = st\<lparr>clients := clients st @ [ws]\<rparr>"

text \<open>
  A message arrives as one buffer, as an \<open>ArrayBuffer\<close> or as an array of buffers, and
  is made one contiguous \<open>Uint8Array\<close>.
\<close>

datatype raw_data = RawBuffer bytes | RawArrayBuffer bytes | RawBuffers "bytes list"

fun normalize :: "raw_data \<Rightarrow> bytes" where
  "normalize (RawBuffer message) = message"
| "normalize (RawArrayBuffer message) = message"
| "normalize (RawBuffers message) = concat message"

definition error_notification :: json where
  "error_notification = JObject [(''error'', JString ''Failed to process sync request'')]"

text \<open>
  The body of the \<open>try\<close>: \<open>Some x\<close> is the throw of \<open>x\<close>. A failed exit of the sync
  operation rejects the promise that the handler awaits.
\<close>

definition ws_try ::
  "'db env \<Rightarrow> ws_ref \<Rightarrow> raw_data \<Rightarrow> 'db relay \<Rightarrow> thrown option \<times> 'db relay" where
  "ws_try env ws message st =
     (let uint8ArrayMessage = normalize message in
      case sync env uint8ArrayMessage (db st) of
        (ex, db') \<Rightarrow>
          (let st1 = st\<lparr>db := db'\<rparr> in
           case ex of
             Failure c \<Rightarrow> (Some (FiberFailure c), st1)
           | Success response \<Rightarrow>
               (case ws_send (sockets st1 ws) (Binary response) of
                  Inl x \<Rightarrow> (Some (Thrown x), st1)
                | Inr s \<Rightarrow> (None, st1\<lparr>sockets := (sockets st1)(ws := s)\<rparr>))))"

text \<open>The \<open>catch\<close>: a throw of its own \<open>send\<close> leaves the handler as a rejection.\<close>

definition ws_catch ::
  "'db env \<Rightarrow> ws_ref \<Rightarrow> thrown \<Rightarrow> 'db relay \<Rightarrow> thrown option \<times> 'db relay" where
  "ws_catch env ws error st =
     (let st1 = console_error [LogString ''Error handling sync request:'', LogThrown error] st in
      case ws_send (sockets st1 ws) (Text (JSON_stringify env error_notification)) of
        Inl x \<Rightarrow> (Some (Thrown x), st1)
      | Inr s \<Rightarrow> (None, st1\<lparr>sockets := (sockets st1)(ws := s)\<rparr>))"

definition ws_on_message ::
  "'db env \<Rightarrow> ws_ref \<Rightarrow> raw_data \<Rightarrow> 'db relay \<Rightarrow> thrown option \<times> 'db relay" where
  "ws_on_message env ws message st =
     (case ws_try env ws message st of
        (None, st') \<Rightarrow> (None, st')
      | (Some error, st') \<Rightarrow> ws_catch env ws error st')"

subsection \<open>Runs of the relay\<close>

datatype event = Connection ws_ref | Post bytes | Message ws_ref raw_data

fun relay_step :: "'db env \<Rightarrow> 'db relay \<Rightarrow> event \<Rightarrow> 'db relay" where
  "relay_step env st (Connection ws) = on_connection ws st"
| "relay_step env st (Post req_body) = snd (app_post env req_body st)"
| "relay_step env st (Message ws message) = snd (ws_on_message env ws message st)"

definition relay_run :: "'db env \<Rightarrow> 'db relay \<Rightarrow> event list \<Rightarrow> 'db relay" where
  "relay_run env st evs = foldl (relay_step env) st evs"

text \<open>The sockets that a run accepts, in order.\<close>

fun accepted :: "event list \<Rightarrow> ws_ref list" where
  "accepted [] = []"
| "accepted (Connection ws # evs) = ws # accepted evs"
| "accepted (Post req_body # evs) = accepted evs"
| "accepted (Message ws message # evs) = accepted evs"

text \<open>
  A sync operation and a printer of JSON values used to exercise the handlers: the
  operation answers an empty request with a bad request, a request starting with the byte
  255 with a defect, and any other request with the request itself.
\<close>

fun sample_stringify :: "json \<Rightarrow> string" where
  "sample_stringify JNull = ''null''"
| "sample_stringify (JBool b) = (if b then ''true'' else ''false'')"
| "sample_stringify (JNumber n) = (if n = 0 then ''0'' else ''#'')"
| "sample_stringify (JString s) = CHR 0x22 # s @ [CHR 0x22]"
| "sample_stringify (JArray xs) = ''['' @ concat (map sample_stringify xs) @ '']''"
| "sample_stringify (JObject kvs) =
     ''{'' @ concat (map (\<lambda>(k, v). CHR 0x22 # k @ [CHR 0x22] @ '':'' @ sample_stringify v) kvs) @ ''}''"

definition sample_sync :: "bytes \<Rightarrow> unit \<Rightarrow> (sync_error, bytes) exit \<times> unit" where
  "sample_sync req d =
     (case req of
        [] \<Rightarrow> (Failure (Fail (BadRequestError (JString ''empty''))), d)
      | b # _ \<Rightarrow> if b = 255 then (Failure (Die (Error ''disk full'')), d) else (Success req, d))"

definition sample_env :: "unit env" where
  "sample_env = \<lparr>sync = sample_sync, JSON_stringify = sample_stringify\<rparr>"

definition sample_relay :: "unit relay" where
  "sample_relay =
     \<lparr>clients = [0, 1, 2],
      sockets = (\<lambda>r. if r = 1 then \<lparr>readyState = CLOSED, received = []\<rparr>
                     else \<lparr>readyState = OPEN, received = []\<rparr>),
      console = [], db = ()\<rparr>"

section \<open>Properties of the key derivation\<close>

lemma key_ascii:
  "TextEncoder_encode (js_literal ''Symmetric key seed'') = ascii ''Symmetric key seed''"
  by (simp add: TextEncoder_encode_def js_literal_def ascii_def utf8_code_point_def)

text \<open>The buffer built in the loop is a zero byte followed by the encoded segment.\<close>

lemma segment_buffer_eq: "segment_buffer seg = Some (0 # TextEncoder_encode seg)"
  by (simp add: segment_buffer_def new_Uint8Array_def u8_set_def Let_def)

text \<open>From index \<open>i\<close> on, the loop folds the step over the rest of the path.\<close>

lemma slip21_loop_foldl:
  "slip21_loop hmac path i m = Some (foldl (slip21_step hmac) m (drop i path))"
proof (induction hmac path i m rule: slip21_loop.induct)
  case (1 hmac path i m)
  show ?case
  proof (cases "i < length path")
    case True
    have d: "drop i path = path ! i # drop (Suc i) path"
      using True by (simp add: Cons_nth_drop_Suc)
    have "slip21_loop hmac path i m =
            slip21_loop hmac path (i + 1) (hmac (slice m 0 32) (0 # TextEncoder_encode (path ! i)))"
      using True by (subst slip21_loop.simps) (simp add: segment_buffer_eq)
    also have "\<dots> = Some (foldl (slip21_step hmac)
                 (hmac (slice m 0 32) (0 # TextEncoder_encode (path ! i))) (drop (i + 1) path))"
      by (rule 1 [OF True segment_buffer_eq])
    also have "\<dots> = Some (foldl (slip21_step hmac) m (drop i path))"
      by (simp add: d slip21_step_def slice_def)
    finally show ?thesis .
  next
    case False
    then show ?thesis by (subst slip21_loop.simps) simp
  qed
qed

lemma slip21_state_length:
  "(\<forall>k m. length (hmac k m) = 64) \<Longrightarrow> length (foldl (slip21_step hmac) (hmac k0 s) path) = 64"
  by (induction path rule: rev_induct) (simp_all add: slip21_step_def)

lemma sample_hmac_length: "length (sample_hmac k m) = 64"
  by (simp add: sample_hmac_def)

text \<open>
  Claim C1. For every seed and every path, \<open>slip21Derive\<close> returns the key of the
  reference SLIP-21 algorithm: the HMAC of the seed under the ASCII string
  "Symmetric key seed", then for each segment in order the HMAC, under the first 32 bytes
  of the state, of a zero byte followed by the segment's UTF-8 bytes, and at the end bytes
  32 to 64 of the state. For the empty path this is bytes 32 to 64 of the first HMAC.
  When the HMAC has 64 bytes, as HMAC-SHA512 has, the key has 32 bytes.
\<close>

theorem slip21Derive_is_reference:
  "slip21Derive hmac seed path = Some (slip21_reference hmac seed path)
   \<and> slip21Derive hmac seed [] = Some (drop 32 (take 64 (hmac (ascii ''Symmetric key seed'') seed)))
   \<and> ((\<forall>k m. length (hmac k m) = 64) \<longrightarrow> length (slip21_reference hmac seed path) = 32)"
proof -
  have a: "slip21Derive hmac seed p = Some (slip21_reference hmac seed p)" for p
    by (simp add: slip21Derive_def slip21_reference_def slip21_loop_foldl key_ascii slice_def)
  have b: "slip21_reference hmac seed [] = drop 32 (take 64 (hmac (ascii ''Symmetric key seed'') seed))"
    by (simp add: slip21_reference_def)
  have c: "(\<forall>k m. length (hmac k m) = 64) \<longrightarrow> length (slip21_reference hmac seed path) = 32"
    by (simp add: slip21_reference_def slip21_state_length)
  show ?thesis using a [of path] a [of "[]"] b c by simp
qed

theorem slip21Derive_is_reference_witness:
  "(\<forall>k m. length (sample_hmac k m) = 64)
   \<and> slip21Derive sample_hmac [1, 2, 3] [js_literal ''SLIP-0021'']
       = Some (slip21_reference sample_hmac [1, 2, 3] [js_literal ''SLIP-0021''])
   \<and> length (slip21_reference sample_hmac [1, 2, 3] [js_literal ''SLIP-0021'']) = 32
   \<and> slip21_reference sample_hmac [1, 2, 3] [js_literal ''SLIP-0021'']
       = [0, 83, 76, 73, 80, 45, 48, 48, 50, 49] @ replicate 22 0"
proof -
  have h: "\<forall>k m. length (sample_hmac k m) = 64"
    by (simp add: sample_hmac_length)
  have v: "slip21_reference sample_hmac [1, 2, 3] [js_literal ''SLIP-0021'']
       = [0, 83, 76, 73, 80, 45, 48, 48, 50, 49] @ replicate 22 0"
    by (simp add: slip21_reference_def slip21_step_def sample_hmac_def ascii_def
        TextEncoder_encode_def js_literal_def utf8_code_point_def)
  show ?thesis
    using h v slip21Derive_is_reference [of sample_hmac "[1, 2, 3]" "[js_literal ''SLIP-0021'']"]
    by simp
qed

section \<open>Properties of the node identifier\<close>

lemma alphabet_hex: "c \<in> set ''0123456789abcdef'' \<Longrightarrow> is_hex_char c"
  by (auto simp: is_hex_char_def is_digit_def)

lemma hex_word: "is_hex_char c \<Longrightarrow> is_word_char c"
  by (auto simp: is_hex_char_def is_word_char_def)

lemma draw_contract: "customAlphabet_contract draw_customAlphabet"
  by (auto simp: customAlphabet_contract_def draw_customAlphabet_def randomBytes_def)

text \<open>
  Claim C8. Whatever the random source gives, the value of \<open>nanoidAsNodeId\<close> has
  exactly 16 characters, all from the alphabet 0123456789abcdef, so it matches
  \<open>^[0-9a-f]{16}$\<close> and the pattern \<open>^[\w-]{16}$\<close> of the \<open>NodeId\<close> schema. The
  generator of the identifier library is assumed to keep its promise.
\<close>

theorem nanoidAsNodeId_format:
  assumes "customAlphabet_contract ca"
  shows "length (fst (nanoidAsNodeId ca r)) = 16
         \<and> set (fst (nanoidAsNodeId ca r)) \<subseteq> set ''0123456789abcdef''
         \<and> hex16_pattern (fst (nanoidAsNodeId ca r))
         \<and> NodeId_pattern (fst (nanoidAsNodeId ca r))"
proof -
  let ?id = "fst (nanoidAsNodeId ca r)"
  have ne: "''0123456789abcdef'' \<noteq> []" by simp
  from assms ne have l: "length ?id = 16" and s: "set ?id \<subseteq> set ''0123456789abcdef''"
    unfolding customAlphabet_contract_def nanoidAsNodeId_def nanoidForNodeId_def by blast+
  have hx: "list_all is_hex_char ?id"
    using s alphabet_hex unfolding list_all_iff by blast
  then have w: "list_all (\<lambda>c. is_word_char c \<or> c = CHR ''-'') ?id"
    using hex_word unfolding list_all_iff by blast
  show ?thesis using l s hx w by (simp add: hex16_pattern_def NodeId_pattern_def)
qed

theorem nanoidAsNodeId_format_witness:
  "customAlphabet_contract draw_customAlphabet
   \<and> fst (nanoidAsNodeId draw_customAlphabet \<lparr>cursor = 7, tape = (\<lambda>i. of_nat (i * i))\<rparr>)
       = ''1014909410149094''
   \<and> hex16_pattern ''1014909410149094'' \<and> NodeId_pattern ''1014909410149094''"
proof -
  let ?r = "\<lparr>cursor = 7, tape = (\<lambda>i. of_nat (i * i) :: byte)\<rparr>"
  have v: "fst (nanoidAsNodeId draw_customAlphabet ?r) = ''1014909410149094''"
    by (simp add: nanoidAsNodeId_def nanoidForNodeId_def draw_customAlphabet_def randomBytes_def
        upt_rec)
  show ?thesis
    using draw_contract v nanoidAsNodeId_format [OF draw_contract, of ?r] by simp
qed

section \<open>Properties of SecretBox\<close>

lemma randomBytes_length: "length (fst (randomBytes n r)) = n"
  by (simp add: randomBytes_def)

lemma split_sealed:
  "length nonce = 24 \<Longrightarrow> subarray (concatBytes [nonce, c]) 0 24 = nonce \<and> subarray_from (concatBytes [nonce, c]) 24 = c"
  by (simp add: subarray_def subarray_from_def concatBytes_def)

lemma SecretBox_open_eq:
  "SecretBox_open lib key sealed = Effect_sync (sb_open lib key (take 24 sealed) (drop 24 sealed))"
  by (simp add: SecretBox_open_def subarray_def subarray_from_def)

lemma xor_mask_twice:
  "length ks = length m \<Longrightarrow> map2 (XOR) (map2 (XOR) m ks) ks = (m :: bytes)"
  by (induction m ks rule: list_induct2') (simp_all add: xor.assoc)

lemma sample_mask_length: "length (sample_mask k n len) = len"
  by (simp add: sample_mask_def)

lemma sample_lib_roundtrip: "secretbox_roundtrip sample_lib"
  unfolding secretbox_roundtrip_def
proof (intro allI impI)
  fix k n m :: bytes
  assume h: "length k = 32 \<and> length n = 24"
  let ?c = "map2 (XOR) m (sample_mask k n (length m))"
  have lc: "length ?c = length m" by (simp add: sample_mask_length)
  have s: "sb_seal sample_lib k n m = Inr (sample_tag k n ?c @ ?c)"
    using h by (simp add: sample_lib_def sample_seal_def Let_def)
  have t: "length (sample_tag k n ?c) = 16" by (simp add: sample_tag_def)
  have x: "map2 (XOR) ?c (sample_mask k n (length m)) = m"
    by (rule xor_mask_twice) (simp add: sample_mask_length)
  have o: "sb_open sample_lib k n (sample_tag k n ?c @ ?c) = Inr m"
    using h t lc x by (simp add: sample_lib_def sample_open_def Let_def)
  from s o show "\<exists>c. sb_seal sample_lib k n m = Inr c \<and> sb_open sample_lib k n c = Inr m"
    by blast
qed





lemma open_short:
  "sb_open sample_lib (replicate 32 1) (take 24 [1, 2, 3]) (drop 24 [1, 2, 3])
     = Inl (Error ''invalid length'')"
  by code_simp

lemma open_tag_flipped:
  "sb_open sample_lib (replicate 32 1) (take 24 (flip_bit_at 192 sealed_sample))
       (drop 24 (flip_bit_at 192 sealed_sample))
     = Inl (Error ''invalid tag'')"
  by code_simp













text \<open>
  Claim C2. For every 32-byte key \<open>K\<close>, every plaintext \<open>M\<close> and every state of the
  random source, hence every nonce that \<open>seal\<close> draws, opening under \<open>K\<close> what \<open>seal\<close>
  returned under \<open>K\<close> succeeds with exactly \<open>M\<close>. The cipher library is assumed to
  open, under the same key and nonce, what it sealed.
\<close>

theorem SecretBox_roundtrip:
  assumes "secretbox_roundtrip lib" and "length K = 32"
  shows "Effect_flatMap (fst (SecretBox_seal lib K M r)) (SecretBox_open lib K)
           = (Success M :: ('e, bytes) exit)"
proof -
  obtain nonce r' where nr: "randomBytes 24 r = (nonce, r')"
    by (cases "randomBytes 24 r")
  have ln: "length nonce = 24"
    using randomBytes_length [of 24 r] nr by simp
  from assms ln obtain c where
    s: "sb_seal lib K nonce M = Inr c" and o: "sb_open lib K nonce c = Inr M"
    unfolding secretbox_roundtrip_def by blast
  have sealed: "fst (SecretBox_seal lib K M r) = (Success (concatBytes [nonce, c]) :: ('e, bytes) exit)"
    by (simp add: SecretBox_seal_def nr s Effect_sync_def)
  have "SecretBox_open lib K (concatBytes [nonce, c]) = (Success M :: ('e, bytes) exit)"
    using split_sealed [OF ln, of c] o by (simp add: SecretBox_open_def Effect_sync_def)
  with sealed show ?thesis by (simp add: Effect_flatMap_def)
qed

theorem SecretBox_roundtrip_witness:
  "secretbox_roundtrip sample_lib \<and> length (replicate 32 (1 :: byte)) = 32
   \<and> Effect_flatMap (fst (SecretBox_seal sample_lib (replicate 32 1) [10, 20, 30] counting_source))
        (SecretBox_open sample_lib (replicate 32 1)) = (Success [10, 20, 30] :: (unit, bytes) exit)"
proof -
  have l: "length (replicate 32 (1 :: byte)) = 32" by simp
  show ?thesis
    using sample_lib_roundtrip l
      SecretBox_roundtrip [OF sample_lib_roundtrip l, of "[10, 20, 30]" counting_source]
    by simp
qed




text \<open>
  Claim C10. \<open>open\<close> checks neither length nor tag itself: for every input, also a
  short one, it is the call of the library on the split input, wrapped by \<open>Effect.sync\<close>.
  Neither \<open>seal\<close> nor \<open>open\<close> ever fails in the typed error channel; when the library
  throws, the exit of \<open>open\<close> is a defect carrying what was thrown.
\<close>

theorem SecretBox_failure_is_defect:
  "SecretBox_open lib key sealed
     = (Effect_sync (sb_open lib key (take 24 sealed) (drop 24 sealed)) :: ('e, bytes) exit)
   \<and> (\<forall>e. SecretBox_open lib key sealed \<noteq> (Failure (Fail e) :: ('e, bytes) exit))
   \<and> (\<forall>e. fst (SecretBox_seal lib key plaintext r) \<noteq> (Failure (Fail e) :: ('e, bytes) exit))
   \<and> (\<forall>x. sb_open lib key (take 24 sealed) (drop 24 sealed) = Inl x
          \<longrightarrow> SecretBox_open lib key sealed = (Failure (Die x) :: ('e, bytes) exit))"
proof -
  have a: "SecretBox_open lib key sealed
     = (Effect_sync (sb_open lib key (take 24 sealed) (drop 24 sealed)) :: ('e, bytes) exit)"
    by (rule SecretBox_open_eq)
  have b: "\<forall>e. SecretBox_open lib key sealed \<noteq> (Failure (Fail e) :: ('e, bytes) exit)"
    by (simp add: SecretBox_open_eq Effect_sync_def split: sum.splits)
  have c: "\<forall>e. fst (SecretBox_seal lib key plaintext r) \<noteq> (Failure (Fail e) :: ('e, bytes) exit)"
    by (simp add: SecretBox_seal_def Effect_sync_def split: sum.splits prod.splits)
  have d: "\<forall>x. sb_open lib key (take 24 sealed) (drop 24 sealed) = Inl x
          \<longrightarrow> SecretBox_open lib key sealed = (Failure (Die x) :: ('e, bytes) exit)"
    by (simp add: SecretBox_open_eq Effect_sync_def)
  from a b c d show ?thesis by blast
qed

theorem SecretBox_failure_is_defect_witness:
  "SecretBox_open sample_lib (replicate 32 1) [1, 2, 3]
     = (Failure (Die (Error ''invalid length'')) :: (unit, bytes) exit)
   \<and> SecretBox_open sample_lib (replicate 32 1) (flip_bit_at 192 sealed_sample)
     = (Failure (Die (Error ''invalid tag'')) :: (unit, bytes) exit)"
  using SecretBox_failure_is_defect [where 'e = unit, of sample_lib "replicate 32 1" "[1, 2, 3]"]
    SecretBox_failure_is_defect [where 'e = unit, of sample_lib "replicate 32 1"
      "flip_bit_at 192 sealed_sample"]
    open_short open_tag_flipped
  by blast

section \<open>Properties of the relay\<close>

lemma ws_send_open:
  "readyState s = OPEN \<Longrightarrow> ws_send s frame = Inr (s\<lparr>received := received s @ [frame]\<rparr>)"
  by (simp add: ws_send_def)

lemma broadcast_clients_spec:
  "broadcast_clients cs data h =
     (None, \<lambda>r. if readyState (h r) = OPEN
                 then (h r)\<lparr>received := received (h r) @ replicate (count_list cs r) (Binary data)\<rparr>
                 else h r)"
proof (induction cs arbitrary: h)
  case Nil
  show ?case by (simp add: fun_eq_iff)
next
  case (Cons c cs)
  show ?case
  proof (cases "readyState (h c) = OPEN")
    case True
    let ?s = "(h c)\<lparr>received := received (h c) @ [Binary data]\<rparr>"
    have "broadcast_clients (c # cs) data h = broadcast_clients cs data (h(c := ?s))"
      using True by (simp add: ws_send_open)
    also have "\<dots> = (None, \<lambda>r. if readyState ((h(c := ?s)) r) = OPEN
                 then ((h(c := ?s)) r)\<lparr>received := received ((h(c := ?s)) r) @ replicate (count_list cs r) (Binary data)\<rparr>
                 else (h(c := ?s)) r)"
      by (rule Cons.IH)
    also have "\<dots> = (None, \<lambda>r. if readyState (h r) = OPEN
                 then (h r)\<lparr>received := received (h r) @ replicate (count_list (c # cs) r) (Binary data)\<rparr>
                 else h r)"
      using True by (auto simp: fun_eq_iff replicate_app_Cons_same)
    finally show ?thesis .
  next
    case False
    have "broadcast_clients (c # cs) data h = broadcast_clients cs data h"
      using False by simp
    also have "\<dots> = (None, \<lambda>r. if readyState (h r) = OPEN
                 then (h r)\<lparr>received := received (h r) @ replicate (count_list cs r) (Binary data)\<rparr>
                 else h r)"
      by (rule Cons.IH)
    also have "\<dots> = (None, \<lambda>r. if readyState (h r) = OPEN
                 then (h r)\<lparr>received := received (h r) @ replicate (count_list (c # cs) r) (Binary data)\<rparr>
                 else h r)"
      using False by (auto simp: fun_eq_iff)
    finally show ?thesis .
  qed
qed

lemma broadcast_spec:
  "broadcast data st =
     (None, st\<lparr>sockets := (\<lambda>r. if readyState (sockets st r) = OPEN
                 then (sockets st r)\<lparr>received := received (sockets st r)
                        @ replicate (count_list (clients st) r) (Binary data)\<rparr>
                 else sockets st r)\<rparr>)"
  by (simp add: broadcast_def broadcast_clients_spec)

lemma onSuccess_spec:
  "onSuccess buffer st =
     (\<lparr>statusCode = 200, headers = [''Content-Type'' \<mapsto> ''application/x-protobuf''],
       body = Some (Binary buffer)\<rparr>,
      st\<lparr>sockets := (\<lambda>r. if readyState (sockets st r) = OPEN
                 then (sockets st r)\<lparr>received := received (sockets st r)
                        @ replicate (count_list (clients st) r) (Binary buffer)\<rparr>
                 else sockets st r)\<rparr>)"
  by (simp add: onSuccess_def broadcast_spec res_send_def res_setHeader_def fresh_response_def)

lemma clients_broadcast: "clients (snd (broadcast data st)) = clients st"
  by (simp add: broadcast_spec)

lemma clients_app_post: "clients (snd (app_post env req_body st)) = clients st"
proof (cases "sync env req_body (db st)")
  case (Pair ex db')
  show ?thesis
  proof (cases ex)
    case (Success R)
    with Pair show ?thesis by (simp add: app_post_def onSuccess_spec)
  next
    case (Failure c)
    with Pair show ?thesis
      by (simp add: app_post_def onFailure_def console_error_def
          split: sum.splits sync_error.splits)
  qed
qed

lemma clients_ws_catch: "clients (snd (ws_catch env ws err st)) = clients st"
  by (simp add: ws_catch_def console_error_def Let_def split: sum.splits)

lemma clients_ws_try: "clients (snd (ws_try env ws message st)) = clients st"
  by (simp add: ws_try_def Let_def split: prod.splits exit.splits sum.splits)

lemma clients_ws_on_message: "clients (snd (ws_on_message env ws message st)) = clients st"
proof (cases "ws_try env ws message st")
  case (Pair x st1)
  have c: "clients st1 = clients st"
    using clients_ws_try [of env ws message st] Pair by simp
  show ?thesis
  proof (cases x)
    case None
    with Pair c show ?thesis by (simp add: ws_on_message_def)
  next
    case (Some err)
    with Pair c show ?thesis by (simp add: ws_on_message_def clients_ws_catch)
  qed
qed

lemma clients_relay_step:
  "clients (relay_step env st ev) = clients st @ accepted [ev]"
  by (cases ev) (simp_all add: on_connection_def clients_app_post clients_ws_on_message)

lemma accepted_append: "accepted (evs @ [ev]) = accepted evs @ accepted [ev]"
  by (induction evs rule: accepted.induct) simp_all

lemma clients_relay_run:
  "clients (relay_run env st evs) = clients st @ accepted evs"
proof (induction evs rule: rev_induct)
  case Nil
  show ?case by (simp add: relay_run_def)
next
  case (snoc ev evs)
  have "clients (relay_run env st (evs @ [ev])) = clients (relay_step env (relay_run env st evs) ev)"
    by (simp add: relay_run_def)
  also have "\<dots> = clients (relay_run env st evs) @ accepted [ev]"
    by (rule clients_relay_step)
  also have "\<dots> = clients st @ accepted (evs @ [ev])"
    by (simp add: snoc.IH accepted_append)
  finally show ?case .
qed

lemma sample_sync_ok: "sync sample_env [1, 2, 3] (db sample_relay) = (Success [1, 2, 3], ())"
  by (simp add: sample_env_def sample_sync_def)

lemma sample_sync_bad:
  "sync sample_env [] (db sample_relay) = (Failure (Fail (BadRequestError (JString ''empty''))), ())"
  by (simp add: sample_env_def sample_sync_def)

lemma sample_sync_defect:
  "sync sample_env [255] (db sample_relay) = (Failure (Die (Error ''disk full'')), ())"
  by (simp add: sample_env_def sample_sync_def)

lemma sample_sync_fragments:
  "sync sample_env (normalize (RawBuffers [[1], [2, 3]])) (db sample_relay) = (Success [1, 2, 3], ())"
  by (simp add: sample_env_def sample_sync_def)

lemma sample_sync_empty_frame:
  "sync sample_env (normalize (RawBuffer [])) (db sample_relay)
     = (Failure (Fail (BadRequestError (JString ''empty''))), ())"
  by (simp add: sample_env_def sample_sync_def)

lemma sample_socket_open: "readyState (sockets sample_relay 0) = OPEN"
  by (simp add: sample_relay_def)

lemma ws_send_closed:
  "readyState s = CLOSING \<or> readyState s = CLOSED \<Longrightarrow> ws_send s frame = Inr s"
  by (auto simp: ws_send_def)

lemma readyState_ws_send: "ws_send s frame = Inr s' \<Longrightarrow> readyState s' = readyState s"
  by (cases "readyState s") (auto simp: ws_send_def)

lemma sockets_ws_try:
  "(\<forall>r. r \<noteq> ws \<longrightarrow> sockets (snd (ws_try env ws message st)) r = sockets st r)
   \<and> readyState (sockets (snd (ws_try env ws message st)) ws) = readyState (sockets st ws)"
  by (auto simp: ws_try_def Let_def readyState_ws_send split: prod.splits exit.splits sum.splits)

lemma sockets_ws_catch:
  "(\<forall>r. r \<noteq> ws \<longrightarrow> sockets (snd (ws_catch env ws err st)) r = sockets st r)
   \<and> readyState (sockets (snd (ws_catch env ws err st)) ws) = readyState (sockets st ws)"
  by (auto simp: ws_catch_def console_error_def Let_def readyState_ws_send split: sum.splits)

lemma sockets_ws_on_message:
  "(\<forall>r. r \<noteq> ws \<longrightarrow> sockets (snd (ws_on_message env ws message st)) r = sockets st r)
   \<and> readyState (sockets (snd (ws_on_message env ws message st)) ws) = readyState (sockets st ws)"
proof (cases "ws_try env ws message st")
  case (Pair x st1)
  note t = sockets_ws_try [of ws env message st]
  show ?thesis
  proof (cases x)
    case None
    with Pair t show ?thesis by (simp add: ws_on_message_def)
  next
    case (Some err)
    with Pair t sockets_ws_catch [of ws env err st1] show ?thesis
      by (simp add: ws_on_message_def)
  qed
qed

lemma ws_on_message_closed:
  assumes "readyState (sockets st ws) = CLOSING \<or> readyState (sockets st ws) = CLOSED"
  shows "sockets (snd (ws_on_message env ws message st)) = sockets st
         \<and> fst (ws_on_message env ws message st) = None"
proof (cases "sync env (normalize message) (db st)")
  case (Pair ex db')
  have u: "(sockets st)(ws := sockets st ws) = sockets st" by simp
  show ?thesis
  proof (cases ex)
    case (Success R)
    with Pair assms show ?thesis
      by (simp add: ws_on_message_def ws_try_def ws_send_closed Let_def)
  next
    case (Failure c)
    with Pair assms show ?thesis
      by (simp add: ws_on_message_def ws_try_def ws_catch_def console_error_def ws_send_closed
          Let_def)
  qed
qed

lemma ws_on_message_open:
  assumes "readyState (sockets st ws) = OPEN"
      and "sync env (normalize message) (db st) = (ex, db')"
  shows "(\<forall>R. ex = Success R \<longrightarrow>
            ws_on_message env ws message st
              = (None, st\<lparr>sockets := (sockets st)(ws := (sockets st ws)
                             \<lparr>received := received (sockets st ws) @ [Binary R]\<rparr>),
                          db := db'\<rparr>))
       \<and> (\<forall>c. ex = Failure c \<longrightarrow>
            ws_on_message env ws message st
              = (None, st\<lparr>sockets := (sockets st)(ws := (sockets st ws)
                             \<lparr>received := received (sockets st ws)
                                @ [Text (JSON_stringify env
                                     (JObject [(''error'', JString ''Failed to process sync request'')]))]\<rparr>),
                          console := console st
                             @ [[LogString ''Error handling sync request:'', LogThrown (FiberFailure c)]],
                          db := db'\<rparr>))
       \<and> (\<forall>err st1. ws_try env ws message st = (Some err, st1)
             \<longrightarrow> (\<exists>c. ex = Failure c \<and> err = FiberFailure c))
       \<and> fst (ws_on_message env ws message st) = None"
proof (cases ex)
  case (Success R)
  have t: "fst (ws_try env ws message st) = None"
    using assms Success by (simp add: ws_try_def ws_send_open Let_def)
  have "ws_on_message env ws message st
              = (None, st\<lparr>sockets := (sockets st)(ws := (sockets st ws)
                             \<lparr>received := received (sockets st ws) @ [Binary R]\<rparr>),
                          db := db'\<rparr>)"
    using assms Success
    by (simp add: ws_on_message_def ws_try_def ws_send_open Let_def)
  with Success t show ?thesis by auto
next
  case (Failure c)
  have t: "fst (ws_try env ws message st) = Some (FiberFailure c)"
    using assms Failure by (simp add: ws_try_def Let_def)
  have "ws_on_message env ws message st
              = (None, st\<lparr>sockets := (sockets st)(ws := (sockets st ws)
                             \<lparr>received := received (sockets st ws)
                                @ [Text (JSON_stringify env
                                     (JObject [(''error'', JString ''Failed to process sync request'')]))]\<rparr>),
                          console := console st
                             @ [[LogString ''Error handling sync request:'', LogThrown (FiberFailure c)]],
                          db := db'\<rparr>)"
    using assms Failure
    by (simp add: ws_on_message_def ws_try_def ws_catch_def console_error_def ws_send_open
        error_notification_def Let_def)
  with Failure t show ?thesis by auto
qed

lemma sample_socket_closed: "readyState (sockets sample_relay 1) = CLOSED"
  by (simp add: sample_relay_def)

lemma sample_sync_frame:
  "sync sample_env (normalize (RawBuffer [1, 2, 3])) (db sample_relay) = (Success [1, 2, 3], ())"
  by (simp add: sample_env_def sample_sync_def)

text \<open>
  Claim C4. When the sync operation succeeds with the payload \<open>R\<close>, the reply to the
  POST has status 200, content type "application/x-protobuf" and body exactly \<open>R\<close>, and
  every registered socket found open receives \<open>R\<close> as a frame, once for each time it is
  registered; a socket that is not open or not registered receives nothing, and the
  registry is left as it was.
\<close>

theorem post_success:
  assumes "sync env req_body (db st) = (Success R, db')"
  shows "statusCode (fst (app_post env req_body st)) = 200
       \<and> headers (fst (app_post env req_body st)) ''Content-Type'' = Some ''application/x-protobuf''
       \<and> body (fst (app_post env req_body st)) = Some (Binary R)
       \<and> (\<forall>ws \<in> set (clients st). readyState (sockets st ws) = OPEN \<longrightarrow>
            received (sockets (snd (app_post env req_body st)) ws)
              = received (sockets st ws) @ replicate (count_list (clients st) ws) (Binary R)
            \<and> last (received (sockets (snd (app_post env req_body st)) ws)) = Binary R)
       \<and> (\<forall>ws. readyState (sockets st ws) \<noteq> OPEN \<or> ws \<notin> set (clients st) \<longrightarrow>
            sockets (snd (app_post env req_body st)) ws = sockets st ws)
       \<and> clients (snd (app_post env req_body st)) = clients st"
proof -
  have p: "app_post env req_body st = onSuccess R (st\<lparr>db := db'\<rparr>)"
    using assms by (simp add: app_post_def)
  have c: "ws \<in> set (clients st) \<Longrightarrow> replicate (count_list (clients st) ws) (Binary R) \<noteq> []
            \<and> last (xs @ replicate (count_list (clients st) ws) (Binary R)) = Binary R" for ws xs
    by (simp add: count_list_0_iff)
  show ?thesis
    unfolding p onSuccess_spec using c by (auto simp: count_list_0_iff)
qed

theorem post_success_witness:
  "sync sample_env [1, 2, 3] (db sample_relay) = (Success [1, 2, 3], ())
   \<and> statusCode (fst (app_post sample_env [1, 2, 3] sample_relay)) = 200
   \<and> headers (fst (app_post sample_env [1, 2, 3] sample_relay)) ''Content-Type''
       = Some ''application/x-protobuf''
   \<and> body (fst (app_post sample_env [1, 2, 3] sample_relay)) = Some (Binary [1, 2, 3])
   \<and> received (sockets (snd (app_post sample_env [1, 2, 3] sample_relay)) 0) = [Binary [1, 2, 3]]
   \<and> received (sockets (snd (app_post sample_env [1, 2, 3] sample_relay)) 2) = [Binary [1, 2, 3]]
   \<and> sockets (snd (app_post sample_env [1, 2, 3] sample_relay)) 1
       = \<lparr>readyState = CLOSED, received = []\<rparr>"
proof -
  note t = post_success [OF sample_sync_ok]
  have a: "0 \<in> set (clients sample_relay) \<and> readyState (sockets sample_relay 0) = OPEN
           \<and> received (sockets sample_relay 0) @ replicate (count_list (clients sample_relay) 0) (Binary [1, 2, 3])
               = [Binary [1, 2, 3]]"
    by (simp add: sample_relay_def)
  have b: "2 \<in> set (clients sample_relay) \<and> readyState (sockets sample_relay 2) = OPEN
           \<and> received (sockets sample_relay 2) @ replicate (count_list (clients sample_relay) 2) (Binary [1, 2, 3])
               = [Binary [1, 2, 3]]"
    by (simp add: sample_relay_def)
  have c: "readyState (sockets sample_relay 1) \<noteq> OPEN
           \<and> sockets sample_relay 1 = \<lparr>readyState = CLOSED, received = []\<rparr>"
    by (simp add: sample_relay_def)
  show ?thesis using t a b c sample_sync_ok by metis
qed

text \<open>
  Claim C5. When the sync operation fails with a \<open>BadRequestError\<close> carrying the
  structured error \<open>E\<close>, the reply has status 400 and its body is the JSON serialization
  of \<open>E\<close>; nothing is broadcast: but for the database behind the sync operation the
  state of the relay, and so every socket, is as before.
\<close>

theorem post_bad_request:
  assumes "sync env req_body (db st) = (Failure (Fail (BadRequestError E)), db')"
  shows "statusCode (fst (app_post env req_body st)) = 400
       \<and> body (fst (app_post env req_body st)) = Some (Text (JSON_stringify env E))
       \<and> snd (app_post env req_body st) = st\<lparr>db := db'\<rparr>
       \<and> sockets (snd (app_post env req_body st)) = sockets st"
  using assms
  by (simp add: app_post_def onFailure_def failureOrCause_def res_send_def res_status_def
      fresh_response_def)

theorem post_bad_request_witness:
  "sync sample_env [] (db sample_relay) = (Failure (Fail (BadRequestError (JString ''empty''))), ())
   \<and> statusCode (fst (app_post sample_env [] sample_relay)) = 400
   \<and> body (fst (app_post sample_env [] sample_relay))
       = Some (Text (CHR 0x22 # ''empty'' @ [CHR 0x22]))
   \<and> snd (app_post sample_env [] sample_relay) = sample_relay"
proof -
  have j: "JSON_stringify sample_env (JString ''empty'') = CHR 0x22 # ''empty'' @ [CHR 0x22]"
    by (simp add: sample_env_def)
  have d: "sample_relay\<lparr>db := ()\<rparr> = sample_relay" by simp
  show ?thesis
    using post_bad_request [OF sample_sync_bad] sample_sync_bad j d by simp
qed

text \<open>
  Claim C6. When the sync operation fails with a cause that is no typed failure, the
  whole reply is fixed: status 500 and the body "Internal Server Error", whatever
  the cause, so the text of the cause never reaches the client. The cause is written to
  the server's console, and nothing is broadcast.
\<close>

theorem post_internal_error:
  assumes "sync env req_body (db st) = (Failure c, db')" and "\<forall>e. c \<noteq> Fail e"
  shows "fst (app_post env req_body st)
           = \<lparr>statusCode = 500, headers = Map.empty, body = Some (Text ''Internal Server Error'')\<rparr>
       \<and> snd (app_post env req_body st) = st\<lparr>db := db', console := console st @ [[LogCause c]]\<rparr>
       \<and> sockets (snd (app_post env req_body st)) = sockets st"
proof -
  have f: "failureOrCause c = Inr c"
    using assms(2) by (cases c) (simp_all add: failureOrCause_def)
  show ?thesis
    using assms(1) f
    by (simp add: app_post_def onFailure_def res_send_def res_status_def fresh_response_def
        console_error_def)
qed

theorem post_internal_error_witness:
  "sync sample_env [255] (db sample_relay) = (Failure (Die (Error ''disk full'')), ())
   \<and> (\<forall>e. Die (Error ''disk full'') \<noteq> (Fail e :: sync_error cause))
   \<and> fst (app_post sample_env [255] sample_relay)
       = \<lparr>statusCode = 500, headers = Map.empty, body = Some (Text ''Internal Server Error'')\<rparr>
   \<and> console (snd (app_post sample_env [255] sample_relay)) = [[LogCause (Die (Error ''disk full''))]]
   \<and> sockets (snd (app_post sample_env [255] sample_relay)) = sockets sample_relay"
proof -
  have n: "\<forall>e. Die (Error ''disk full'') \<noteq> (Fail e :: sync_error cause)" by simp
  have c: "console sample_relay = []" by (simp add: sample_relay_def)
  show ?thesis
    using post_internal_error [OF sample_sync_defect n] sample_sync_defect n c by simp
qed

text \<open>
  Claim C7, amended. For a message on a socket that is open when the handler replies: if
  the sync operation succeeds with \<open>R\<close>, \<open>R\<close> is sent to that socket and nothing else
  happens; if it fails, with any cause, the error is caught and logged and the JSON text
  of the object with the single field \<open>error\<close>, a string, is sent to that socket; a
  failed sync operation is the only error the body of the \<open>try\<close> raises there, and the
  handler ends without a rejection. On a socket that is closing or closed the handler
  also ends without a rejection, and no frame is delivered to any socket: neither \<open>R\<close>
  nor the notification. Whatever the state of the socket, no other socket receives
  anything, the registry is as before and the ready state of the socket is unchanged.
\<close>

theorem ws_on_message_reply:
  assumes "sync env (normalize message) (db st) = (ex, db')"
  shows "(readyState (sockets st ws) = OPEN \<longrightarrow>
           (\<forall>R. ex = Success R \<longrightarrow>
              ws_on_message env ws message st
                = (None, st\<lparr>sockets := (sockets st)(ws := (sockets st ws)
                               \<lparr>received := received (sockets st ws) @ [Binary R]\<rparr>),
                            db := db'\<rparr>))
         \<and> (\<forall>c. ex = Failure c \<longrightarrow>
              ws_on_message env ws message st
                = (None, st\<lparr>sockets := (sockets st)(ws := (sockets st ws)
                               \<lparr>received := received (sockets st ws)
                                  @ [Text (JSON_stringify env
                                       (JObject [(''error'', JString ''Failed to process sync request'')]))]\<rparr>),
                            console := console st
                               @ [[LogString ''Error handling sync request:'', LogThrown (FiberFailure c)]],
                            db := db'\<rparr>))
         \<and> (\<forall>err st1. ws_try env ws message st = (Some err, st1)
               \<longrightarrow> (\<exists>c. ex = Failure c \<and> err = FiberFailure c))
         \<and> fst (ws_on_message env ws message st) = None)
       \<and> (readyState (sockets st ws) = CLOSING \<or> readyState (sockets st ws) = CLOSED \<longrightarrow>
            sockets (snd (ws_on_message env ws message st)) = sockets st
            \<and> fst (ws_on_message env ws message st) = None)
       \<and> (\<forall>r. r \<noteq> ws \<longrightarrow> sockets (snd (ws_on_message env ws message st)) r = sockets st r)
       \<and> clients (snd (ws_on_message env ws message st)) = clients st
       \<and> readyState (sockets (snd (ws_on_message env ws message st)) ws)
           = readyState (sockets st ws)"
  using ws_on_message_open [OF _ assms, of ws] ws_on_message_closed [of st ws env message]
    sockets_ws_on_message [of ws env message st] clients_ws_on_message [of env ws message st]
  by blast

theorem ws_on_message_reply_witness:
  "sync sample_env (normalize (RawBuffers [[1], [2, 3]])) (db sample_relay) = (Success [1, 2, 3], ())
   \<and> readyState (sockets sample_relay 0) = OPEN
   \<and> received (sockets (snd (ws_on_message sample_env 0 (RawBuffers [[1], [2, 3]]) sample_relay)) 0)
       = [Binary [1, 2, 3]]
   \<and> sockets (snd (ws_on_message sample_env 0 (RawBuffers [[1], [2, 3]]) sample_relay)) 2
       = sockets sample_relay 2
   \<and> sync sample_env (normalize (RawBuffer [])) (db sample_relay)
       = (Failure (Fail (BadRequestError (JString ''empty''))), ())
   \<and> received (sockets (snd (ws_on_message sample_env 0 (RawBuffer []) sample_relay)) 0)
       = [Text (JSON_stringify sample_env (JObject [(''error'', JString ''Failed to process sync request'')]))]
   \<and> readyState (sockets (snd (ws_on_message sample_env 0 (RawBuffer []) sample_relay)) 0) = OPEN
   \<and> fst (ws_on_message sample_env 0 (RawBuffer []) sample_relay) = None
   \<and> readyState (sockets sample_relay 1) = CLOSED
   \<and> sockets (snd (ws_on_message sample_env 1 (RawBuffer []) sample_relay)) = sockets sample_relay"
proof -
  note s = ws_on_message_reply [OF sample_sync_fragments, of 0]
  note f = ws_on_message_reply [OF sample_sync_empty_frame, of 0]
  note c = ws_on_message_reply [OF sample_sync_empty_frame, of 1]
  have r: "received (sockets sample_relay 0) = []" by (simp add: sample_relay_def)
  have a: "received (sockets (snd (ws_on_message sample_env 0 (RawBuffers [[1], [2, 3]]) sample_relay)) 0)
       = [Binary [1, 2, 3]]"
    using s sample_socket_open r by simp
  have b: "sockets (snd (ws_on_message sample_env 0 (RawBuffers [[1], [2, 3]]) sample_relay)) 2
       = sockets sample_relay 2"
    using s by simp
  have d: "received (sockets (snd (ws_on_message sample_env 0 (RawBuffer []) sample_relay)) 0)
       = [Text (JSON_stringify sample_env (JObject [(''error'', JString ''Failed to process sync request'')]))]"
    using f sample_socket_open r by simp
  have e: "readyState (sockets (snd (ws_on_message sample_env 0 (RawBuffer []) sample_relay)) 0) = OPEN
       \<and> fst (ws_on_message sample_env 0 (RawBuffer []) sample_relay) = None"
    using f sample_socket_open by simp
  have g: "sockets (snd (ws_on_message sample_env 1 (RawBuffer []) sample_relay)) = sockets sample_relay"
    using c sample_socket_closed by simp
  show ?thesis
    using sample_socket_open sample_socket_closed sample_sync_fragments sample_sync_empty_frame
      a b d e g
    by simp
qed

text \<open>
  As first stated, claim C7 promises the reply on every socket. On a socket that has
  closed while its request was handled the handler sends without looking at the ready
  state and nothing arrives: after a failed sync operation the socket has received no
  notification, and after a successful one it has not received the payload.
\<close>

theorem ws_on_message_closed_socket_counterexample:
  "readyState (sockets sample_relay 1) = CLOSED
   \<and> sync sample_env (normalize (RawBuffer [])) (db sample_relay)
       = (Failure (Fail (BadRequestError (JString ''empty''))), ())
   \<and> received (sockets (snd (ws_on_message sample_env 1 (RawBuffer []) sample_relay)) 1) = []
   \<and> sync sample_env (normalize (RawBuffer [1, 2, 3])) (db sample_relay)
       = (Success [1, 2, 3], ())
   \<and> received (sockets (snd (ws_on_message sample_env 1 (RawBuffer [1, 2, 3]) sample_relay)) 1) = []"
proof -
  have c: "readyState (sockets sample_relay 1) = CLOSING \<or> readyState (sockets sample_relay 1) = CLOSED"
    using sample_socket_closed by simp
  have r: "received (sockets sample_relay 1) = []" by (simp add: sample_relay_def)
  show ?thesis
    using sample_socket_closed sample_sync_empty_frame sample_sync_frame r
      ws_on_message_closed [OF c, of sample_env "RawBuffer []"]
      ws_on_message_closed [OF c, of sample_env "RawBuffer [1, 2, 3]"]
    by simp
qed

text \<open>
  Claim C9. The registry only grows at its end: accepting a connection appends the
  socket; the HTTP handler, the message handler and \<open>broadcast\<close> leave the registry as
  it is; \<open>broadcast\<close> sends to the sockets found open and leaves every other socket
  untouched. Over any run the registry is the initial one followed by the accepted
  sockets in order, so the initial registry is a prefix of it and its length never
  decreases.
\<close>

theorem registry_append_only:
  "clients (on_connection ws st) = clients st @ [ws]
   \<and> clients (snd (app_post env req_body st)) = clients st
   \<and> clients (snd (ws_on_message env ws message st)) = clients st
   \<and> clients (snd (broadcast data st)) = clients st
   \<and> (\<forall>r. readyState (sockets st r) \<noteq> OPEN \<longrightarrow> sockets (snd (broadcast data st)) r = sockets st r)
   \<and> (\<forall>r. readyState (sockets st r) = OPEN \<longrightarrow>
         received (sockets (snd (broadcast data st)) r)
           = received (sockets st r) @ replicate (count_list (clients st) r) (Binary data))
   \<and> clients (relay_run env st evs) = clients st @ accepted evs
   \<and> prefix (clients st) (clients (relay_run env st evs))
   \<and> length (clients st) \<le> length (clients (relay_run env st evs))"
  by (simp add: on_connection_def clients_app_post clients_ws_on_message clients_relay_run
      broadcast_spec)

theorem registry_append_only_witness:
  "readyState (sockets sample_relay 1) \<noteq> OPEN
   \<and> sockets (snd (broadcast [9] sample_relay)) 1 = sockets sample_relay 1
   \<and> received (sockets (snd (broadcast [9] sample_relay)) 0) = [Binary [9]]
   \<and> clients (relay_run sample_env sample_relay
        [Connection 3, Post [1, 2, 3], Message 0 (RawBuffer [4]), Connection 4])
       = [0, 1, 2, 3, 4]"
proof -
  note t = registry_append_only [of 0 sample_relay sample_env "[]" "RawBuffer []" "[9]"
      "[Connection 3, Post [1, 2, 3], Message 0 (RawBuffer [4]), Connection 4]"]
  have c: "readyState (sockets sample_relay 1) \<noteq> OPEN" by (simp add: sample_relay_def)
  have o: "readyState (sockets sample_relay 0) = OPEN
           \<and> received (sockets sample_relay 0) @ replicate (count_list (clients sample_relay) 0) (Binary [9])
               = [Binary [9]]"
    by (simp add: sample_relay_def)
  have l: "clients sample_relay = [0, 1, 2]" by (simp add: sample_relay_def)
  show ?thesis using t c o l by simp
qed

end
